theory Spec2Isabelle
  imports Main
begin

section \<open>The RestoreItemAction gRPC bridge of pkg/plugin/restore\_item\_action.go\<close>

text \<open>
  The file holds the two halves of one bridge: \<open>RestoreItemActionGRPCClient\<close> (the
  caller-side stub) and \<open>RestoreItemActionGRPCServer\<close> (the callee-side dispatcher).
  Both are embedded here function by function. What the Go code does besides returning
  a value is made explicit:
  \<^item> a Go result pair \<open>(value, error)\<close> whose two halves the code sets independently is
    a pair of options (\<open>None\<close> is \<open>nil\<close>); a callee that follows the convention
    "value or error" is a sum, \<open>Inl\<close> the error;
  \<^item> a panic is the value \<open>Panic v\<close> of the type \<open>outcome\<close>, \<open>v\<close> the argument of
    \<open>panic\<close>, which may be nil; a normal return is \<open>Return r\<close>;
  \<^item> every call that leaves the bridge (an RPC sent by the stub, a method of a registered
    implementation invoked by the dispatcher) is recorded in a trace returned beside the
    result, so that "nothing was called" is the statement that the trace is empty.
\<close>

subsection \<open>Data\<close>

type_synonym bytes = string

text \<open>
  The non-nil values a goroutine panics with here: the runtime's nil pointer dereference
  (raised by the dispatcher itself when an implementation returns a nil output and a
  nil error) and whatever a registered implementation raises, by its message.
\<close>

datatype panic_value = NilPointerDereference | PluginPanic string

text \<open>
  Go's \<open>error\<close> is an interface; the model is the sum of the producers the bridge meets.
  \<open>Errorf_not_a_restore_item_action\<close> and \<open>errors_New\<close> are built in this file
  (lines 156 and 123); the others are the taxonomy of the specification:
  errors of the serializer, of the registry lookup, of a registered implementation, of
  the fault guard and of the RPC channel.
\<close>

datatype error =
    SerializationError string
  | UnknownPluginError string
  | RemoteOperationError string
  | RecoveredFaultError panic_value
  | TransportError string
  | Errorf_not_a_restore_item_action string
  | errors_New string

text \<open>
  The method \<open>Error()\<close>: the message of an error value. The two formats of this file
  are the source's; the registry's and the fault guard's formats are not in the sources
  and only name what the specification says they name.
\<close>

fun Error :: "error \<Rightarrow> string" where
  "Error (SerializationError m) = m"
| "Error (UnknownPluginError name) = ''unknown plugin: '' @ name"
| "Error (RemoteOperationError m) = m"
| "Error (RecoveredFaultError NilPointerDereference) =
     ''plugin panicked: runtime error: invalid memory address or nil pointer dereference''"
| "Error (RecoveredFaultError (PluginPanic m)) = ''plugin panicked: '' @ m"
| "Error (TransportError m) = m"
| "Error (Errorf_not_a_restore_item_action ty) = ty @ '' is not a restore item action''"
| "Error (errors_New m) = m"

text \<open>
  How a call ends. The argument of \<open>panic\<close> is an interface value, so it may be nil:
  \<open>Panic None\<close> is \<open>panic(nil)\<close>. The file is written for the Go of 2017 to 2019, where
  \<open>panic(nil)\<close> is an ordinary panic whose value is nil (from Go 1.21 on the runtime
  replaces the nil by a \<open>*runtime.PanicNilError\<close>, for modules that declare that
  version).
\<close>

datatype 'a outcome = Panic "panic_value option" | Return 'a

text \<open>
  \<open>velero.ResourceSelector\<close>, with the five fields this file reads and writes; a nil
  slice and an empty one are both \<open>[]\<close>.
\<close>

record ResourceSelector =
  IncludedNamespaces :: "string list"
  ExcludedNamespaces :: "string list"
  IncludedResources :: "string list"
  ExcludedResources :: "string list"
  LabelSelector :: string

text \<open>The composite literal \<open>velero.ResourceSelector{}\<close>: every field at its zero value.\<close>

definition zero_ResourceSelector :: ResourceSelector where
  "zero_ResourceSelector =
     \<lparr>IncludedNamespaces = [], ExcludedNamespaces = [], IncludedResources = [],
      ExcludedResources = [], LabelSelector = []\<rparr>"

text \<open>
  The generated messages \<open>proto.AppliesToRequest\<close> and \<open>proto.AppliesToResponse\<close>, with
  the fields this file reads and writes.
\<close>

record AppliesToRequest =
  areq_Plugin :: string

record AppliesToResponse =
  resp_IncludedNamespaces :: "string list"
  resp_ExcludedNamespaces :: "string list"
  resp_IncludedResources :: "string list"
  resp_ExcludedResources :: "string list"
  resp_Selector :: string

text \<open>\<open>proto.RestoreExecuteRequest\<close> and \<open>proto.RestoreExecuteResponse\<close>.\<close>

record RestoreExecuteRequest =
  req_Plugin :: string
  req_Item :: bytes
  req_ItemFromBackup :: bytes
  req_Restore :: bytes

record RestoreExecuteResponse =
  resp_Item :: bytes
  resp_Warning :: string

text \<open>
  \<open>velero.RestoreItemActionExecuteInput\<close> and \<open>velero.RestoreItemActionExecuteOutput\<close>.
  \<open>'doc\<close> is the structured document (\<open>unstructured.Unstructured\<close>, which is its
  content map and nothing else), \<open>'restore\<close> the restore descriptor (\<open>api.Restore\<close>).
\<close>

record ('doc, 'restore) RestoreItemActionExecuteInput =
  Item :: 'doc
  ItemFromBackup :: 'doc
  Restore :: 'restore

record 'doc RestoreItemActionExecuteOutput =
  UpdatedItem :: 'doc
  Warning :: "error option"

text \<open>
  The interface \<open>velero.RestoreItemAction\<close>: the two methods of a registered
  implementation. Each may return or panic; \<open>Execute\<close> returns a pointer and an error,
  and nothing forces an implementation to set exactly one of them.
\<close>

record ('doc, 'restore) RestoreItemAction =
  impl_AppliesTo :: "(ResourceSelector \<times> error option) outcome"
  impl_Execute :: "('doc, 'restore) RestoreItemActionExecuteInput \<Rightarrow>
     ('doc RestoreItemActionExecuteOutput option \<times> error option) outcome"

text \<open>
  What the registry holds is an \<open>interface{}\<close>: an object that implements
  \<open>velero.RestoreItemAction\<close>, or an object of another dynamic type (named as \<open>%T\<close>
  prints it).
\<close>

datatype ('doc, 'restore) handler =
    RestoreItemActionHandler "('doc, 'restore) RestoreItemAction"
  | OtherHandler string

type_synonym ('doc, 'restore) serverMux = "string \<rightharpoonup> ('doc, 'restore) handler"

text \<open>
  The serializer \<open>encoding/json\<close>, an external collaborator, at the five types the
  bridge uses it at: \<open>json.Marshal\<close> of an item's \<open>UnstructuredContent()\<close>, of a
  restore descriptor and of an \<open>Unstructured\<close> object, and \<open>json.Unmarshal\<close> into an
  \<open>Unstructured\<close> object and into an \<open>api.Restore\<close>.
\<close>

record ('doc, 'restore) json =
  Marshal_content :: "'doc \<Rightarrow> error + bytes"
  Marshal_restore :: "'restore \<Rightarrow> error + bytes"
  Marshal_unstructured :: "'doc \<Rightarrow> error + bytes"
  Unmarshal_unstructured :: "bytes \<Rightarrow> error + 'doc"
  Unmarshal_restore :: "bytes \<Rightarrow> error + 'restore"

subsection \<open>Client code\<close>

text \<open>
  \<open>RestoreItemActionGRPCClient\<close>: the plugin name of its \<open>clientBase\<close> and the
  generated \<open>proto.RestoreItemActionClient\<close>, whose methods return a response or an
  error.
\<close>

record RestoreItemActionGRPCClient =
  plugin :: string
  grpcClient_AppliesTo :: "AppliesToRequest \<Rightarrow> error + AppliesToResponse"
  grpcClient_Execute :: "RestoreExecuteRequest \<Rightarrow> error + RestoreExecuteResponse"

datatype rpc = RpcAppliesTo AppliesToRequest | RpcExecute RestoreExecuteRequest

text \<open>\<open>RestoreItemActionGRPCClient.AppliesTo\<close>, lines 73 to 86.\<close>

definition client_AppliesTo ::
  "RestoreItemActionGRPCClient \<Rightarrow> (ResourceSelector \<times> error option) \<times> rpc list" where
  "client_AppliesTo c =
     (let req = \<lparr>areq_Plugin = plugin c\<rparr> in
      case grpcClient_AppliesTo c req of
        Inl err \<Rightarrow> ((zero_ResourceSelector, Some err), [RpcAppliesTo req])
      | Inr res \<Rightarrow>
          ((\<lparr>IncludedNamespaces = resp_IncludedNamespaces res,
             ExcludedNamespaces = resp_ExcludedNamespaces res,
             IncludedResources = resp_IncludedResources res,
             ExcludedResources = resp_ExcludedResources res,
             LabelSelector = resp_Selector res\<rparr>, None), [RpcAppliesTo req]))"

text \<open>
  \<open>RestoreItemActionGRPCClient.Execute\<close>, lines 88 to 130. The caller passes an input
  whose two items are objects: the stub calls \<open>UnstructuredContent()\<close> on them before
  anything else.
\<close>

definition client_Execute ::
  "('doc, 'restore) json \<Rightarrow> RestoreItemActionGRPCClient \<Rightarrow>
   ('doc, 'restore) RestoreItemActionExecuteInput \<Rightarrow>
   ('doc RestoreItemActionExecuteOutput option \<times> error option) \<times> rpc list" where
  "client_Execute js c input =
     (case Marshal_content js (Item input) of
        Inl err \<Rightarrow> ((None, Some err), [])
      | Inr itemJSON \<Rightarrow>
     (case Marshal_content js (ItemFromBackup input) of
        Inl err \<Rightarrow> ((None, Some err), [])
      | Inr itemFromBackupJSON \<Rightarrow>
     (case Marshal_restore js (Restore input) of
        Inl err \<Rightarrow> ((None, Some err), [])
      | Inr restoreJSON \<Rightarrow>
     (let req = \<lparr>req_Plugin = plugin c, req_Item = itemJSON,
                 req_ItemFromBackup = itemFromBackupJSON, req_Restore = restoreJSON\<rparr> in
      case grpcClient_Execute c req of
        Inl err \<Rightarrow> ((None, Some err), [RpcExecute req])
      | Inr res \<Rightarrow>
     (case Unmarshal_unstructured js (resp_Item res) of
        Inl err \<Rightarrow> ((None, Some err), [RpcExecute req])
      | Inr updatedItem \<Rightarrow>
     (let warning = (if resp_Warning res \<noteq> [] then Some (errors_New (resp_Warning res))
                     else None) in
      ((Some \<lparr>UpdatedItem = updatedItem, Warning = warning\<rparr>, None),
       [RpcExecute req])))))))"

subsection \<open>Server code\<close>

text \<open>
  Modelled from the spec: \<open>serverMux.getHandler\<close>, which this file calls and does not
  define. The registry is a mapping from a plugin name to the object registered for it,
  read-only while serving; a name with no entry fails with \<open>UnknownPluginError\<close>, naming
  the requested plugin.
\<close>

definition getHandler :: "('doc, 'restore) serverMux \<Rightarrow> string \<Rightarrow> error + ('doc, 'restore) handler" where
  "getHandler mux name =
     (case mux name of None \<Rightarrow> Inl (UnknownPluginError name) | Some impl \<Rightarrow> Inr impl)"

text \<open>
  Modelled from the spec: \<open>handlePanic\<close>, which this file calls and does not define.
  It is given what \<open>recover()\<close> returned. A non-nil value is a fault, converted into
  the error \<open>RecoveredFaultError\<close>, which carries the fault as its diagnostic
  information. For nil there is no error: the deferred function of lines 163 to 167
  calls \<open>handlePanic\<close> after every normal return too, where \<open>recover()\<close> is nil, and
  overwrites \<open>err\<close> with any non-nil result, so a non-nil result for nil would fail
  every call.
\<close>

definition handlePanic :: "panic_value option \<Rightarrow> error option" where
  "handlePanic p = (case p of None \<Rightarrow> None | Some v \<Rightarrow> Some (RecoveredFaultError v))"

text \<open>\<open>RestoreItemActionGRPCServer.getImpl\<close>, lines 148 to 160.\<close>

definition getImpl ::
  "('doc, 'restore) serverMux \<Rightarrow> string \<Rightarrow> error + ('doc, 'restore) RestoreItemAction" where
  "getImpl mux name =
     (case getHandler mux name of
        Inl err \<Rightarrow> Inl err
      | Inr impl \<Rightarrow>
          (case impl of
             RestoreItemActionHandler itemAction \<Rightarrow> Inr itemAction
           | OtherHandler ty \<Rightarrow> Inl (Errorf_not_a_restore_item_action ty)))"

text \<open>
  The built-in \<open>recover()\<close>, called in a deferred function: the value the goroutine is
  panicking with, and nil when it is not panicking. After \<open>panic(nil)\<close> the value is
  nil as well.
\<close>

definition recover :: "'a outcome \<Rightarrow> panic_value option" where
  "recover body = (case body of Panic v \<Rightarrow> v | Return r \<Rightarrow> None)"

text \<open>
  The deferred function of both handlers, lines 163 to 167 and 189 to 193. It runs when
  the body has returned, with the named results as the body set them, and when the body
  has panicked, with the named results as they stood then: \<open>response\<close> is nil and
  \<open>err\<close> is nil, since every call of the body that can panic is made after \<open>err\<close> was
  last found nil. \<open>recover()\<close> stops the panic, so the handler returns in both cases;
  \<open>err\<close> is overwritten only when \<open>handlePanic\<close> gives a non-nil error.
\<close>

definition deferred_recover ::
  "('r option \<times> error option) outcome \<Rightarrow> ('r option \<times> error option) outcome" where
  "deferred_recover body =
     (case (case body of Return named \<Rightarrow> named | Panic v \<Rightarrow> (None, None)) of
        (response, err) \<Rightarrow>
          (case handlePanic (recover body) of
             Some recoveredErr \<Rightarrow> Return (response, Some recoveredErr)
           | None \<Rightarrow> Return (response, err)))"

text \<open>What the dispatcher invoked on a registered implementation, and under which plugin name.\<close>

datatype ('doc, 'restore) invocation =
    InvokedAppliesTo string
  | InvokedExecute string "('doc, 'restore) RestoreItemActionExecuteInput"

text \<open>The body of \<open>RestoreItemActionGRPCServer.AppliesTo\<close>, lines 169 to 185.\<close>

definition server_AppliesTo_body ::
  "('doc, 'restore) serverMux \<Rightarrow> AppliesToRequest \<Rightarrow>
   (AppliesToResponse option \<times> error option) outcome \<times> ('doc, 'restore) invocation list" where
  "server_AppliesTo_body mux req =
     (case getImpl mux (areq_Plugin req) of
        Inl err \<Rightarrow> (Return (None, Some err), [])
      | Inr impl \<Rightarrow>
          (case impl_AppliesTo impl of
             Panic p \<Rightarrow> (Panic p, [InvokedAppliesTo (areq_Plugin req)])
           | Return (appliesTo, Some err) \<Rightarrow>
               (Return (None, Some err), [InvokedAppliesTo (areq_Plugin req)])
           | Return (appliesTo, None) \<Rightarrow>
               (Return (Some \<lparr>resp_IncludedNamespaces = IncludedNamespaces appliesTo,
                              resp_ExcludedNamespaces = ExcludedNamespaces appliesTo,
                              resp_IncludedResources = IncludedResources appliesTo,
                              resp_ExcludedResources = ExcludedResources appliesTo,
                              resp_Selector = LabelSelector appliesTo\<rparr>, None),
                [InvokedAppliesTo (areq_Plugin req)])))"

text \<open>\<open>RestoreItemActionGRPCServer.AppliesTo\<close>, lines 162 to 186.\<close>

definition server_AppliesTo ::
  "('doc, 'restore) serverMux \<Rightarrow> AppliesToRequest \<Rightarrow>
   (AppliesToResponse option \<times> error option) outcome \<times> ('doc, 'restore) invocation list" where
  "server_AppliesTo mux req =
     (case server_AppliesTo_body mux req of (body, invoked) \<Rightarrow> (deferred_recover body, invoked))"

text \<open>
  The body of \<open>RestoreItemActionGRPCServer.Execute\<close>, lines 195 to 240. With a nil
  \<open>executeOutput\<close> and a nil error, reading \<open>executeOutput.UpdatedItem\<close> on line 227
  dereferences a nil pointer.
\<close>

definition server_Execute_body ::
  "('doc, 'restore) json \<Rightarrow> ('doc, 'restore) serverMux \<Rightarrow> RestoreExecuteRequest \<Rightarrow>
   (RestoreExecuteResponse option \<times> error option) outcome \<times> ('doc, 'restore) invocation list" where
  "server_Execute_body js mux req =
     (case getImpl mux (req_Plugin req) of
        Inl err \<Rightarrow> (Return (None, Some err), [])
      | Inr impl \<Rightarrow>
     (case Unmarshal_unstructured js (req_Item req) of
        Inl err \<Rightarrow> (Return (None, Some err), [])
      | Inr item \<Rightarrow>
     (case Unmarshal_unstructured js (req_ItemFromBackup req) of
        Inl err \<Rightarrow> (Return (None, Some err), [])
      | Inr itemFromBackup \<Rightarrow>
     (case Unmarshal_restore js (req_Restore req) of
        Inl err \<Rightarrow> (Return (None, Some err), [])
      | Inr restoreObj \<Rightarrow>
     (let input = \<lparr>Item = item, ItemFromBackup = itemFromBackup, Restore = restoreObj\<rparr>;
          invoked = [InvokedExecute (req_Plugin req) input] in
      case impl_Execute impl input of
        Panic p \<Rightarrow> (Panic p, invoked)
      | Return (executeOutput, Some err) \<Rightarrow> (Return (None, Some err), invoked)
      | Return (None, None) \<Rightarrow> (Panic (Some NilPointerDereference), invoked)
      | Return (Some out, None) \<Rightarrow>
     (case Marshal_unstructured js (UpdatedItem out) of
        Inl err \<Rightarrow> (Return (None, Some err), invoked)
      | Inr updatedItem \<Rightarrow>
     (let warnMessage = (case Warning out of None \<Rightarrow> [] | Some w \<Rightarrow> Error w) in
      (Return (Some \<lparr>resp_Item = updatedItem, resp_Warning = warnMessage\<rparr>, None),
       invoked))))))))"

text \<open>\<open>RestoreItemActionGRPCServer.Execute\<close>, lines 188 to 241.\<close>

definition server_Execute ::
  "('doc, 'restore) json \<Rightarrow> ('doc, 'restore) serverMux \<Rightarrow> RestoreExecuteRequest \<Rightarrow>
   (RestoreExecuteResponse option \<times> error option) outcome \<times> ('doc, 'restore) invocation list" where
  "server_Execute js mux req =
     (case server_Execute_body js mux req of (body, invoked) \<Rightarrow> (deferred_recover body, invoked))"

subsection \<open>Fixtures for the examples\<close>

text \<open>
  A structured document as the serializer sees it: null, a boolean, a number, a string,
  an array, or an object whose keys keep their order.
\<close>

datatype document =
    DNull
  | DBool bool
  | DNumber int
  | DString string
  | DArray "document list"
  | DObject "(string \<times> document) list"

definition pod :: document where
  "pod = DObject [(''kind'', DString ''Pod'')]"

definition pod_old :: document where
  "pod_old = DObject [(''kind'', DString ''Pod''), (''status'', DString ''old'')]"

definition pod_restored :: document where
  "pod_restored = DObject [(''kind'', DString ''Pod''), (''status'', DString ''restored'')]"

definition restore_r1 :: document where
  "restore_r1 = DObject [(''name'', DString ''r1'')]"

text \<open>
  A serializer for the examples. It knows the four documents above and their JSON
  texts; every other value is one it cannot encode, every other text one it cannot
  decode.
\<close>

definition pod_json :: bytes where
  \<open>pod_json = ''{"kind":"Pod"}''\<close>

definition pod_old_json :: bytes where
  \<open>pod_old_json = ''{"kind":"Pod","status":"old"}''\<close>

definition pod_restored_json :: bytes where
  \<open>pod_restored_json = ''{"kind":"Pod","status":"restored"}''\<close>

definition restore_r1_json :: bytes where
  \<open>restore_r1_json = ''{"name":"r1"}''\<close>

definition sample_encode :: "document \<Rightarrow> error + bytes" where
  "sample_encode d =
     (if d = pod then Inr pod_json
      else if d = pod_old then Inr pod_old_json
      else if d = pod_restored then Inr pod_restored_json
      else if d = restore_r1 then Inr restore_r1_json
      else Inl (SerializationError ''json: unsupported value''))"

definition sample_decode :: "bytes \<Rightarrow> error + document" where
  "sample_decode b =
     (if b = pod_json then Inr pod
      else if b = pod_old_json then Inr pod_old
      else if b = pod_restored_json then Inr pod_restored
      else if b = restore_r1_json then Inr restore_r1
      else Inl (SerializationError ''invalid character''))"

definition sample_json :: "(document, document) json" where
  "sample_json =
     \<lparr>Marshal_content = sample_encode, Marshal_restore = sample_encode,
      Marshal_unstructured = sample_encode, Unmarshal_unstructured = sample_decode,
      Unmarshal_restore = sample_decode\<rparr>"

text \<open>Registered objects: four implementations and one object of another type.\<close>

definition ns1_selector :: ResourceSelector where
  "ns1_selector =
     \<lparr>IncludedNamespaces = [''ns1''], ExcludedNamespaces = [], IncludedResources = [],
      ExcludedResources = [''pods''], LabelSelector = ''app=foo''\<rparr>"

definition my_action :: "(document, document) RestoreItemAction" where
  "my_action =
     \<lparr>impl_AppliesTo = Return (ns1_selector, None),
      impl_Execute = (\<lambda>input.
        Return (Some \<lparr>UpdatedItem = pod_restored, Warning = None\<rparr>, None))\<rparr>"

definition panicking_action :: "(document, document) RestoreItemAction" where
  "panicking_action =
     \<lparr>impl_AppliesTo = Panic (Some (PluginPanic ''index out of range'')),
      impl_Execute = (\<lambda>input. Panic (Some (PluginPanic ''index out of range'')))\<rparr>"

definition nil_panicking_action :: "(document, document) RestoreItemAction" where
  "nil_panicking_action =
     \<lparr>impl_AppliesTo = Panic None, impl_Execute = (\<lambda>input. Panic None)\<rparr>"

definition unencodable_action :: "(document, document) RestoreItemAction" where
  "unencodable_action =
     \<lparr>impl_AppliesTo = Return (zero_ResourceSelector, None),
      impl_Execute = (\<lambda>input.
        Return (Some \<lparr>UpdatedItem = DArray [DNull], Warning = None\<rparr>, None))\<rparr>"

definition my_action_only :: "(document, document) serverMux" where
  "my_action_only = [''plugins.io/my-action'' \<mapsto> RestoreItemActionHandler my_action]"

definition nil_panic_mux :: "(document, document) serverMux" where
  "nil_panic_mux = [''plugins.io/panics-nil'' \<mapsto> RestoreItemActionHandler nil_panicking_action]"

definition sample_mux :: "(document, document) serverMux" where
  "sample_mux =
     [''plugins.io/my-action'' \<mapsto> RestoreItemActionHandler my_action,
      ''plugins.io/panics'' \<mapsto> RestoreItemActionHandler panicking_action,
      ''plugins.io/unencodable'' \<mapsto> RestoreItemActionHandler unencodable_action,
      ''plugins.io/backup-action'' \<mapsto> OtherHandler ''*main.backupAction'']"

text \<open>
  Three RPC channels for the examples: one that hands each request to the dispatcher
  and brings back its response, or the message of its error; one that answers with
  fixed responses; one that cannot reach the server.
\<close>

definition loopback_client ::
  "('doc, 'restore) json \<Rightarrow> ('doc, 'restore) serverMux \<Rightarrow> string \<Rightarrow>
   RestoreItemActionGRPCClient" where
  "loopback_client js mux name =
     \<lparr>plugin = name,
      grpcClient_AppliesTo = (\<lambda>req.
        case fst (server_AppliesTo mux req) of
          Return (Some resp, None) \<Rightarrow> Inr resp
        | Return (response, Some err) \<Rightarrow> Inl (TransportError (Error err))
        | other \<Rightarrow> Inl (TransportError ''no response'')),
      grpcClient_Execute = (\<lambda>req.
        case fst (server_Execute js mux req) of
          Return (Some resp, None) \<Rightarrow> Inr resp
        | Return (response, Some err) \<Rightarrow> Inl (TransportError (Error err))
        | other \<Rightarrow> Inl (TransportError ''no response''))\<rparr>"

definition canned_client ::
  "string \<Rightarrow> AppliesToResponse \<Rightarrow> RestoreExecuteResponse \<Rightarrow> RestoreItemActionGRPCClient" where
  "canned_client name ares eres =
     \<lparr>plugin = name, grpcClient_AppliesTo = (\<lambda>req. Inr ares),
      grpcClient_Execute = (\<lambda>req. Inr eres)\<rparr>"

definition unreachable_client :: "string \<Rightarrow> RestoreItemActionGRPCClient" where
  "unreachable_client name =
     \<lparr>plugin = name,
      grpcClient_AppliesTo = (\<lambda>req. Inl (TransportError ''connection refused'')),
      grpcClient_Execute = (\<lambda>req. Inl (TransportError ''connection refused''))\<rparr>"

text \<open>Responses for the channel that answers with fixed responses.\<close>

definition ns1_response :: AppliesToResponse where
  "ns1_response =
     \<lparr>resp_IncludedNamespaces = [''ns1''], resp_ExcludedNamespaces = [],
      resp_IncludedResources = [], resp_ExcludedResources = [''pods''],
      resp_Selector = ''app=foo''\<rparr>"

definition plain_response :: RestoreExecuteResponse where
  "plain_response = \<lparr>resp_Item = pod_restored_json, resp_Warning = []\<rparr>"

definition warned_response :: RestoreExecuteResponse where
  "warned_response = \<lparr>resp_Item = pod_restored_json, resp_Warning = ''W''\<rparr>"

definition other_warned_response :: RestoreExecuteResponse where
  "other_warned_response =
     \<lparr>resp_Item = pod_old_json, resp_Warning = ''owner reference dropped''\<rparr>"

section \<open>Properties\<close>

subsection \<open>Auxiliary facts\<close>

lemma deferred_recover_Panic:
  "deferred_recover (Panic (Some p)) = Return (None, Some (RecoveredFaultError p))"
  by (simp add: deferred_recover_def recover_def handlePanic_def)

lemma deferred_recover_Panic_nil:
  "deferred_recover (Panic None) = Return (None, None)"
  by (simp add: deferred_recover_def recover_def handlePanic_def)

lemma deferred_recover_Return:
  "deferred_recover (Return r) = Return r"
  by (cases r) (simp add: deferred_recover_def recover_def handlePanic_def)

lemma deferred_recover_returns:
  "deferred_recover body \<noteq> Panic q"
proof (cases body)
  case (Panic v)
  then show ?thesis
    by (cases v) (simp_all add: deferred_recover_Panic deferred_recover_Panic_nil)
next
  case (Return r)
  then show ?thesis by (simp add: deferred_recover_Return)
qed

lemma server_AppliesTo_fst:
  "fst (server_AppliesTo mux req) = deferred_recover (fst (server_AppliesTo_body mux req))"
  by (simp add: server_AppliesTo_def split: prod.splits)

lemma server_AppliesTo_snd:
  "snd (server_AppliesTo mux req) = snd (server_AppliesTo_body mux req)"
  by (simp add: server_AppliesTo_def split: prod.splits)

lemma server_Execute_fst:
  "fst (server_Execute js mux req) = deferred_recover (fst (server_Execute_body js mux req))"
  by (simp add: server_Execute_def split: prod.splits)

lemma server_Execute_snd:
  "snd (server_Execute js mux req) = snd (server_Execute_body js mux req)"
  by (simp add: server_Execute_def split: prod.splits)

text \<open>The example serializer on the example documents.\<close>

lemma sample_decode_simps:
  "sample_decode pod_json = Inr pod"
  "sample_decode pod_old_json = Inr pod_old"
  "sample_decode pod_restored_json = Inr pod_restored"
  "sample_decode restore_r1_json = Inr restore_r1"
  by (simp_all add: sample_decode_def pod_json_def pod_old_json_def pod_restored_json_def
        restore_r1_json_def)

lemma sample_encode_simps:
  "sample_encode pod = Inr pod_json"
  "sample_encode pod_old = Inr pod_old_json"
  "sample_encode pod_restored = Inr pod_restored_json"
  "sample_encode restore_r1 = Inr restore_r1_json"
  by (simp_all add: sample_encode_def pod_def pod_old_def pod_restored_def restore_r1_def)

lemma getImpl_sample_mux:
  "getImpl sample_mux ''plugins.io/my-action'' = Inr my_action"
  "getImpl sample_mux ''plugins.io/panics'' = Inr panicking_action"
  "getImpl sample_mux ''plugins.io/unencodable'' = Inr unencodable_action"
  by (simp_all add: getImpl_def getHandler_def sample_mux_def)

subsection \<open>Fault containment\<close>

text \<open>
  C1, as amended. Whenever evaluating the body of the dispatcher's \<open>AppliesTo\<close> or
  \<open>Execute\<close> handler panics with a non-nil value \<open>p\<close>, the handler returns normally,
  with a nil response and the error \<open>RecoveredFaultError p\<close>, which carries the fault.
  The body panics so in particular when the registered implementation it invokes does,
  and when \<open>Execute\<close> of the implementation returns neither an output nor an error (the
  handler then dereferences nil). No request makes either handler end in a panic,
  whatever the value of the panic, so no fault of the call reaches the serving process.
\<close>

theorem panic_recovered:
  "(fst (server_AppliesTo_body mux areq) = Panic (Some p) \<longrightarrow>
      fst (server_AppliesTo mux areq) = Return (None, Some (RecoveredFaultError p)))
   \<and> (fst (server_Execute_body js mux req) = Panic (Some p) \<longrightarrow>
      fst (server_Execute js mux req) = Return (None, Some (RecoveredFaultError p)))
   \<and> (getImpl mux (areq_Plugin areq) = Inr impl \<and> impl_AppliesTo impl = Panic (Some p) \<longrightarrow>
      fst (server_AppliesTo mux areq) = Return (None, Some (RecoveredFaultError p)))
   \<and> (getImpl mux (req_Plugin req) = Inr impl
        \<and> Unmarshal_unstructured js (req_Item req) = Inr item
        \<and> Unmarshal_unstructured js (req_ItemFromBackup req) = Inr itemFromBackup
        \<and> Unmarshal_restore js (req_Restore req) = Inr restoreObj
        \<and> impl_Execute impl
             \<lparr>Item = item, ItemFromBackup = itemFromBackup, Restore = restoreObj\<rparr> =
            Panic (Some p) \<longrightarrow>
      fst (server_Execute js mux req) = Return (None, Some (RecoveredFaultError p)))
   \<and> (getImpl mux (req_Plugin req) = Inr impl
        \<and> Unmarshal_unstructured js (req_Item req) = Inr item
        \<and> Unmarshal_unstructured js (req_ItemFromBackup req) = Inr itemFromBackup
        \<and> Unmarshal_restore js (req_Restore req) = Inr restoreObj
        \<and> impl_Execute impl
             \<lparr>Item = item, ItemFromBackup = itemFromBackup, Restore = restoreObj\<rparr> =
            Return (None, None) \<longrightarrow>
      fst (server_Execute js mux req) =
        Return (None, Some (RecoveredFaultError NilPointerDereference)))
   \<and> (\<forall>q. fst (server_AppliesTo mux areq) \<noteq> Panic q)
   \<and> (\<forall>q. fst (server_Execute js mux req) \<noteq> Panic q)"
proof (intro conjI impI allI)
  assume "fst (server_AppliesTo_body mux areq) = Panic (Some p)"
  then show "fst (server_AppliesTo mux areq) = Return (None, Some (RecoveredFaultError p))"
    by (simp add: server_AppliesTo_fst deferred_recover_Panic)
next
  assume "fst (server_Execute_body js mux req) = Panic (Some p)"
  then show "fst (server_Execute js mux req) = Return (None, Some (RecoveredFaultError p))"
    by (simp add: server_Execute_fst deferred_recover_Panic)
next
  assume "getImpl mux (areq_Plugin areq) = Inr impl \<and> impl_AppliesTo impl = Panic (Some p)"
  then have "fst (server_AppliesTo_body mux areq) = Panic (Some p)"
    by (simp add: server_AppliesTo_body_def)
  then show "fst (server_AppliesTo mux areq) = Return (None, Some (RecoveredFaultError p))"
    by (simp add: server_AppliesTo_fst deferred_recover_Panic)
next
  assume "getImpl mux (req_Plugin req) = Inr impl
        \<and> Unmarshal_unstructured js (req_Item req) = Inr item
        \<and> Unmarshal_unstructured js (req_ItemFromBackup req) = Inr itemFromBackup
        \<and> Unmarshal_restore js (req_Restore req) = Inr restoreObj
        \<and> impl_Execute impl
             \<lparr>Item = item, ItemFromBackup = itemFromBackup, Restore = restoreObj\<rparr> =
            Panic (Some p)"
  then have "fst (server_Execute_body js mux req) = Panic (Some p)"
    by (simp add: server_Execute_body_def)
  then show "fst (server_Execute js mux req) = Return (None, Some (RecoveredFaultError p))"
    by (simp add: server_Execute_fst deferred_recover_Panic)
next
  assume "getImpl mux (req_Plugin req) = Inr impl
        \<and> Unmarshal_unstructured js (req_Item req) = Inr item
        \<and> Unmarshal_unstructured js (req_ItemFromBackup req) = Inr itemFromBackup
        \<and> Unmarshal_restore js (req_Restore req) = Inr restoreObj
        \<and> impl_Execute impl
             \<lparr>Item = item, ItemFromBackup = itemFromBackup, Restore = restoreObj\<rparr> =
            Return (None, None)"
  then have "fst (server_Execute_body js mux req) = Panic (Some NilPointerDereference)"
    by (simp add: server_Execute_body_def)
  then show "fst (server_Execute js mux req) =
      Return (None, Some (RecoveredFaultError NilPointerDereference))"
    by (simp add: server_Execute_fst deferred_recover_Panic)
next
  fix q
  show "fst (server_AppliesTo mux areq) \<noteq> Panic q"
    by (simp add: server_AppliesTo_fst deferred_recover_returns)
next
  fix q
  show "fst (server_Execute js mux req) \<noteq> Panic q"
    by (simp add: server_Execute_fst deferred_recover_returns)
qed

theorem panic_recovered_witness:
  "fst (server_AppliesTo sample_mux \<lparr>areq_Plugin = ''plugins.io/panics''\<rparr>) =
     Return (None, Some (RecoveredFaultError (PluginPanic ''index out of range'')))
   \<and> fst (server_Execute sample_json sample_mux
        \<lparr>req_Plugin = ''plugins.io/panics'', req_Item = pod_json,
         req_ItemFromBackup = pod_old_json, req_Restore = restore_r1_json\<rparr>) =
     Return (None, Some (RecoveredFaultError (PluginPanic ''index out of range'')))"
  using panic_recovered [of sample_mux "\<lparr>areq_Plugin = ''plugins.io/panics''\<rparr>"
      "PluginPanic ''index out of range''" sample_json
      "\<lparr>req_Plugin = ''plugins.io/panics'', req_Item = pod_json,
         req_ItemFromBackup = pod_old_json, req_Restore = restore_r1_json\<rparr>"
      panicking_action pod pod_old restore_r1]
  by (simp add: getImpl_sample_mux panicking_action_def sample_json_def sample_decode_simps)

text \<open>
  C1, as stated, fails for a panic whose value is nil. The implementation registered as
  \<open>plugins.io/panics-nil\<close> panics with \<open>panic(nil)\<close> in both methods. The panic is
  stopped, but \<open>recover()\<close> gives nil, the guard of the deferred function assigns
  nothing, and both handlers return a nil response and a nil error: no error value
  reports the fault.
\<close>

theorem panic_nil_returns_no_error:
  "getImpl nil_panic_mux ''plugins.io/panics-nil'' = Inr nil_panicking_action
   \<and> impl_AppliesTo nil_panicking_action = Panic None
   \<and> impl_Execute nil_panicking_action
        \<lparr>Item = pod, ItemFromBackup = pod_old, Restore = restore_r1\<rparr> = Panic None
   \<and> server_AppliesTo_body nil_panic_mux \<lparr>areq_Plugin = ''plugins.io/panics-nil''\<rparr> =
        (Panic None, [InvokedAppliesTo ''plugins.io/panics-nil''])
   \<and> server_AppliesTo nil_panic_mux \<lparr>areq_Plugin = ''plugins.io/panics-nil''\<rparr> =
        (Return (None, None), [InvokedAppliesTo ''plugins.io/panics-nil''])
   \<and> server_Execute sample_json nil_panic_mux
        \<lparr>req_Plugin = ''plugins.io/panics-nil'', req_Item = pod_json,
         req_ItemFromBackup = pod_old_json, req_Restore = restore_r1_json\<rparr> =
        (Return (None, None),
         [InvokedExecute ''plugins.io/panics-nil''
            \<lparr>Item = pod, ItemFromBackup = pod_old, Restore = restore_r1\<rparr>])"
  by (simp add: server_AppliesTo_def server_AppliesTo_body_def server_Execute_def
        server_Execute_body_def getImpl_def getHandler_def nil_panic_mux_def
        nil_panicking_action_def sample_json_def sample_decode_simps
        deferred_recover_Panic_nil)

subsection \<open>Warnings\<close>

text \<open>
  C2. When the three inputs encode, the channel answers the request built from the
  plugin name and the three encodings with a response \<open>res\<close>, and the item of \<open>res\<close>
  decodes to \<open>updatedItem\<close>: if the warning string of \<open>res\<close> is not empty, the stub's
  \<open>Execute\<close> returns \<open>updatedItem\<close> together with a non-nil warning, the error
  \<open>errors.New\<close> of that string, whose message is that string, and a nil error; if the
  warning string is empty, it returns \<open>updatedItem\<close> with a nil warning and a nil
  error. In both cases it has sent that one request. A warning is a field of the
  returned output, and the stub returns either an output and no error or an error and
  no output, so a warning never stands in for a result.
\<close>

theorem warning_passthrough:
  "(Marshal_content js (Item input) = Inr itemJSON
      \<and> Marshal_content js (ItemFromBackup input) = Inr itemFromBackupJSON
      \<and> Marshal_restore js (Restore input) = Inr restoreJSON
      \<and> grpcClient_Execute c
           \<lparr>req_Plugin = plugin c, req_Item = itemJSON,
            req_ItemFromBackup = itemFromBackupJSON, req_Restore = restoreJSON\<rparr> = Inr res
      \<and> Unmarshal_unstructured js (resp_Item res) = Inr updatedItem
      \<and> resp_Warning res \<noteq> [] \<longrightarrow>
    client_Execute js c input =
      ((Some \<lparr>UpdatedItem = updatedItem,
              Warning = Some (errors_New (resp_Warning res))\<rparr>, None),
       [RpcExecute \<lparr>req_Plugin = plugin c, req_Item = itemJSON,
                    req_ItemFromBackup = itemFromBackupJSON, req_Restore = restoreJSON\<rparr>])
    \<and> Error (errors_New (resp_Warning res)) = resp_Warning res)
   \<and> (Marshal_content js (Item input) = Inr itemJSON
      \<and> Marshal_content js (ItemFromBackup input) = Inr itemFromBackupJSON
      \<and> Marshal_restore js (Restore input) = Inr restoreJSON
      \<and> grpcClient_Execute c
           \<lparr>req_Plugin = plugin c, req_Item = itemJSON,
            req_ItemFromBackup = itemFromBackupJSON, req_Restore = restoreJSON\<rparr> = Inr res
      \<and> Unmarshal_unstructured js (resp_Item res) = Inr updatedItem
      \<and> resp_Warning res = [] \<longrightarrow>
    client_Execute js c input =
      ((Some \<lparr>UpdatedItem = updatedItem, Warning = None\<rparr>, None),
       [RpcExecute \<lparr>req_Plugin = plugin c, req_Item = itemJSON,
                    req_ItemFromBackup = itemFromBackupJSON, req_Restore = restoreJSON\<rparr>]))
   \<and> ((\<exists>out. fst (client_Execute js c input) = (Some out, None))
      \<or> (\<exists>err. fst (client_Execute js c input) = (None, Some err)))"
proof (intro conjI impI)
  assume h: "Marshal_content js (Item input) = Inr itemJSON
      \<and> Marshal_content js (ItemFromBackup input) = Inr itemFromBackupJSON
      \<and> Marshal_restore js (Restore input) = Inr restoreJSON
      \<and> grpcClient_Execute c
           \<lparr>req_Plugin = plugin c, req_Item = itemJSON,
            req_ItemFromBackup = itemFromBackupJSON, req_Restore = restoreJSON\<rparr> = Inr res
      \<and> Unmarshal_unstructured js (resp_Item res) = Inr updatedItem
      \<and> resp_Warning res \<noteq> []"
  then show "client_Execute js c input =
      ((Some \<lparr>UpdatedItem = updatedItem,
              Warning = Some (errors_New (resp_Warning res))\<rparr>, None),
       [RpcExecute \<lparr>req_Plugin = plugin c, req_Item = itemJSON,
                    req_ItemFromBackup = itemFromBackupJSON, req_Restore = restoreJSON\<rparr>])"
    by (simp add: client_Execute_def)
  show "Error (errors_New (resp_Warning res)) = resp_Warning res"
    by simp
next
  assume "Marshal_content js (Item input) = Inr itemJSON
      \<and> Marshal_content js (ItemFromBackup input) = Inr itemFromBackupJSON
      \<and> Marshal_restore js (Restore input) = Inr restoreJSON
      \<and> grpcClient_Execute c
           \<lparr>req_Plugin = plugin c, req_Item = itemJSON,
            req_ItemFromBackup = itemFromBackupJSON, req_Restore = restoreJSON\<rparr> = Inr res
      \<and> Unmarshal_unstructured js (resp_Item res) = Inr updatedItem
      \<and> resp_Warning res = []"
  then show "client_Execute js c input =
      ((Some \<lparr>UpdatedItem = updatedItem, Warning = None\<rparr>, None),
       [RpcExecute \<lparr>req_Plugin = plugin c, req_Item = itemJSON,
                    req_ItemFromBackup = itemFromBackupJSON, req_Restore = restoreJSON\<rparr>])"
    by (simp add: client_Execute_def)
next
  show "(\<exists>out. fst (client_Execute js c input) = (Some out, None))
      \<or> (\<exists>err. fst (client_Execute js c input) = (None, Some err))"
    by (auto simp: client_Execute_def Let_def split: sum.splits)
qed

theorem warning_passthrough_witness:
  "client_Execute sample_json
      (canned_client ''plugins.io/my-action'' ns1_response warned_response)
      \<lparr>Item = pod, ItemFromBackup = pod_old, Restore = restore_r1\<rparr> =
    ((Some \<lparr>UpdatedItem = pod_restored, Warning = Some (errors_New ''W'')\<rparr>, None),
     [RpcExecute \<lparr>req_Plugin = ''plugins.io/my-action'', req_Item = pod_json,
                  req_ItemFromBackup = pod_old_json, req_Restore = restore_r1_json\<rparr>])
   \<and> Error (errors_New ''W'') = ''W''
   \<and> client_Execute sample_json
      (canned_client ''plugins.io/my-action'' ns1_response other_warned_response)
      \<lparr>Item = pod, ItemFromBackup = pod_old, Restore = restore_r1\<rparr> =
    ((Some \<lparr>UpdatedItem = pod_old,
            Warning = Some (errors_New ''owner reference dropped'')\<rparr>, None),
     [RpcExecute \<lparr>req_Plugin = ''plugins.io/my-action'', req_Item = pod_json,
                  req_ItemFromBackup = pod_old_json, req_Restore = restore_r1_json\<rparr>])
   \<and> Error (errors_New ''owner reference dropped'') = ''owner reference dropped''
   \<and> client_Execute sample_json
      (canned_client ''plugins.io/my-action'' ns1_response plain_response)
      \<lparr>Item = pod, ItemFromBackup = pod_old, Restore = restore_r1\<rparr> =
    ((Some \<lparr>UpdatedItem = pod_restored, Warning = None\<rparr>, None),
     [RpcExecute \<lparr>req_Plugin = ''plugins.io/my-action'', req_Item = pod_json,
                  req_ItemFromBackup = pod_old_json, req_Restore = restore_r1_json\<rparr>])"
  using warning_passthrough [of sample_json
      "\<lparr>Item = pod, ItemFromBackup = pod_old, Restore = restore_r1\<rparr>"
      pod_json pod_old_json restore_r1_json
      "canned_client ''plugins.io/my-action'' ns1_response warned_response"
      warned_response pod_restored]
    warning_passthrough [of sample_json
      "\<lparr>Item = pod, ItemFromBackup = pod_old, Restore = restore_r1\<rparr>"
      pod_json pod_old_json restore_r1_json
      "canned_client ''plugins.io/my-action'' ns1_response other_warned_response"
      other_warned_response pod_old]
    warning_passthrough [of sample_json
      "\<lparr>Item = pod, ItemFromBackup = pod_old, Restore = restore_r1\<rparr>"
      pod_json pod_old_json restore_r1_json
      "canned_client ''plugins.io/my-action'' ns1_response plain_response"
      plain_response pod_restored]
  by (simp add: canned_client_def warned_response_def other_warned_response_def
        plain_response_def sample_json_def sample_encode_simps sample_decode_simps)

subsection \<open>The success path, end to end\<close>

text \<open>
  C3. The registry has the one entry \<open>plugins.io/my-action\<close>, bound to the implementation
  \<open>M\<close>; the stub is bound to that plugin name over a channel that brings back the
  response of the dispatcher whenever the dispatcher answers with one; the serializer
  encodes the four documents of the scenario and decodes each encoding to its document.
  When \<open>M\<close>, called with item \<open>{"kind":"Pod"}\<close>, item from backup
  \<open>{"kind":"Pod","status":"old"}\<close> and restore \<open>{"name":"r1"}\<close>, returns the updated
  item \<open>{"kind":"Pod","status":"restored"}\<close> with no warning and no error, the stub's
  \<open>Execute\<close> on these three documents sends one request, under the plugin name
  \<open>plugins.io/my-action\<close>, and returns that updated item, a nil warning and a nil error;
  the dispatcher, on that request, invokes \<open>Execute\<close> of \<open>M\<close> once, with these three
  documents.
\<close>

theorem end_to_end_success:
  fixes js :: "(document, document) json"
  assumes registry: "mux = [''plugins.io/my-action'' \<mapsto> RestoreItemActionHandler M]"
    and name: "plugin c = ''plugins.io/my-action''"
    and channel: "\<forall>req resp. fst (server_Execute js mux req) = Return (Some resp, None) \<longrightarrow>
                   grpcClient_Execute c req = Inr resp"
    and encodable: "Marshal_content js pod = Inr b1" "Marshal_content js pod_old = Inr b2"
      "Marshal_restore js restore_r1 = Inr b3" "Marshal_unstructured js pod_restored = Inr b4"
    and round_trip: "Unmarshal_unstructured js b1 = Inr pod"
      "Unmarshal_unstructured js b2 = Inr pod_old" "Unmarshal_restore js b3 = Inr restore_r1"
      "Unmarshal_unstructured js b4 = Inr pod_restored"
    and M_returns: "impl_Execute M \<lparr>Item = pod, ItemFromBackup = pod_old, Restore = restore_r1\<rparr> =
       Return (Some \<lparr>UpdatedItem = pod_restored, Warning = None\<rparr>, None)"
  shows "client_Execute js c \<lparr>Item = pod, ItemFromBackup = pod_old, Restore = restore_r1\<rparr> =
      ((Some \<lparr>UpdatedItem = pod_restored, Warning = None\<rparr>, None),
       [RpcExecute \<lparr>req_Plugin = ''plugins.io/my-action'', req_Item = b1,
                    req_ItemFromBackup = b2, req_Restore = b3\<rparr>])
    \<and> snd (server_Execute js mux \<lparr>req_Plugin = ''plugins.io/my-action'', req_Item = b1,
                    req_ItemFromBackup = b2, req_Restore = b3\<rparr>) =
      [InvokedExecute ''plugins.io/my-action''
         \<lparr>Item = pod, ItemFromBackup = pod_old, Restore = restore_r1\<rparr>]"
proof -
  let ?req = "\<lparr>req_Plugin = ''plugins.io/my-action'', req_Item = b1,
                    req_ItemFromBackup = b2, req_Restore = b3\<rparr>"
  let ?input = "\<lparr>Item = pod, ItemFromBackup = pod_old, Restore = restore_r1\<rparr>"
  have impl: "getImpl mux ''plugins.io/my-action'' = Inr M"
    by (simp add: registry getImpl_def getHandler_def)
  have body: "server_Execute_body js mux ?req =
      (Return (Some \<lparr>resp_Item = b4, resp_Warning = []\<rparr>, None),
       [InvokedExecute ''plugins.io/my-action'' ?input])"
    by (simp add: server_Execute_body_def impl round_trip M_returns encodable)
  have srv: "server_Execute js mux ?req =
      (Return (Some \<lparr>resp_Item = b4, resp_Warning = []\<rparr>, None),
       [InvokedExecute ''plugins.io/my-action'' ?input])"
    by (simp add: server_Execute_def body deferred_recover_Return)
  then have rpc: "grpcClient_Execute c ?req = Inr \<lparr>resp_Item = b4, resp_Warning = []\<rparr>"
    using channel by simp
  have "client_Execute js c ?input =
      ((Some \<lparr>UpdatedItem = pod_restored, Warning = None\<rparr>, None), [RpcExecute ?req])"
    by (simp add: client_Execute_def encodable name rpc round_trip)
  then show ?thesis using srv by simp
qed

theorem end_to_end_success_witness:
  "client_Execute sample_json
      (loopback_client sample_json my_action_only ''plugins.io/my-action'')
      \<lparr>Item = pod, ItemFromBackup = pod_old, Restore = restore_r1\<rparr> =
      ((Some \<lparr>UpdatedItem = pod_restored, Warning = None\<rparr>, None),
       [RpcExecute \<lparr>req_Plugin = ''plugins.io/my-action'', req_Item = pod_json,
                    req_ItemFromBackup = pod_old_json, req_Restore = restore_r1_json\<rparr>])
    \<and> snd (server_Execute sample_json my_action_only
             \<lparr>req_Plugin = ''plugins.io/my-action'', req_Item = pod_json,
              req_ItemFromBackup = pod_old_json, req_Restore = restore_r1_json\<rparr>) =
      [InvokedExecute ''plugins.io/my-action''
         \<lparr>Item = pod, ItemFromBackup = pod_old, Restore = restore_r1\<rparr>]"
proof -
  have channel: "\<forall>req resp.
      fst (server_Execute sample_json my_action_only req) = Return (Some resp, None) \<longrightarrow>
      grpcClient_Execute (loopback_client sample_json my_action_only ''plugins.io/my-action'') req
        = Inr resp"
    by (simp add: loopback_client_def)
  show ?thesis
    by (rule end_to_end_success [where M = my_action and ?b4.0 = pod_restored_json,
          OF _ _ channel])
       (simp_all add: my_action_only_def loopback_client_def sample_json_def
          sample_encode_simps sample_decode_simps my_action_def)
qed

subsection \<open>Name resolution\<close>

text \<open>
  C4. For a request whose plugin name has no entry in the registry, the dispatcher's
  \<open>AppliesTo\<close> and \<open>Execute\<close> both return a nil response and the error
  \<open>UnknownPluginError\<close> naming the requested plugin, and invoke no implementation. The
  lookup is a function of the registry and the name: a name with no entry always gives
  that error, and a name registered to an implementation always gives that
  implementation.
\<close>

theorem unknown_plugin_rejected:
  "(mux (areq_Plugin areq) = None \<longrightarrow>
      server_AppliesTo mux areq =
        (Return (None, Some (UnknownPluginError (areq_Plugin areq))), []))
   \<and> (mux (req_Plugin req) = None \<longrightarrow>
      server_Execute js mux req =
        (Return (None, Some (UnknownPluginError (req_Plugin req))), []))
   \<and> (mux name = None \<longrightarrow> getImpl mux name = Inl (UnknownPluginError name))
   \<and> (mux name = Some (RestoreItemActionHandler impl) \<longrightarrow> getImpl mux name = Inr impl)"
  by (simp add: server_AppliesTo_def server_AppliesTo_body_def server_Execute_def
        server_Execute_body_def getImpl_def getHandler_def deferred_recover_Return)

theorem unknown_plugin_rejected_witness:
  "server_AppliesTo sample_mux \<lparr>areq_Plugin = ''plugins.io/missing''\<rparr> =
      (Return (None, Some (UnknownPluginError ''plugins.io/missing'')), [])
   \<and> server_Execute sample_json sample_mux
        \<lparr>req_Plugin = ''plugins.io/missing'', req_Item = pod_json,
         req_ItemFromBackup = pod_old_json, req_Restore = restore_r1_json\<rparr> =
      (Return (None, Some (UnknownPluginError ''plugins.io/missing'')), [])
   \<and> getImpl sample_mux ''plugins.io/missing'' = Inl (UnknownPluginError ''plugins.io/missing'')
   \<and> getImpl sample_mux ''plugins.io/my-action'' = Inr my_action"
  using unknown_plugin_rejected [of sample_mux "\<lparr>areq_Plugin = ''plugins.io/missing''\<rparr>"
      "\<lparr>req_Plugin = ''plugins.io/missing'', req_Item = pod_json,
         req_ItemFromBackup = pod_old_json, req_Restore = restore_r1_json\<rparr>"
      sample_json "''plugins.io/missing''"]
    unknown_plugin_rejected [of sample_mux _ _ _ "''plugins.io/my-action''" my_action]
  by (simp add: sample_mux_def)

subsection \<open>Serialization failures\<close>

text \<open>
  C5. If the serializer cannot encode the current item, or the item from backup, or the
  restore descriptor, the stub's \<open>Execute\<close> returns a nil output and the serializer's
  error (the first one met, in that order), and sends no RPC: the trace of calls on the
  channel is empty.
\<close>

theorem marshal_failure_sends_nothing:
  "(Marshal_content js (Item input) = Inl e \<longrightarrow>
      client_Execute js c input = ((None, Some e), []))
   \<and> (Marshal_content js (Item input) = Inr itemJSON
       \<and> Marshal_content js (ItemFromBackup input) = Inl e \<longrightarrow>
      client_Execute js c input = ((None, Some e), []))
   \<and> (Marshal_content js (Item input) = Inr itemJSON
       \<and> Marshal_content js (ItemFromBackup input) = Inr itemFromBackupJSON
       \<and> Marshal_restore js (Restore input) = Inl e \<longrightarrow>
      client_Execute js c input = ((None, Some e), []))
   \<and> (isl (Marshal_content js (Item input)) \<or> isl (Marshal_content js (ItemFromBackup input))
       \<or> isl (Marshal_restore js (Restore input)) \<longrightarrow>
      (\<exists>err. client_Execute js c input = ((None, Some err), [])
         \<and> (Marshal_content js (Item input) = Inl err
            \<or> Marshal_content js (ItemFromBackup input) = Inl err
            \<or> Marshal_restore js (Restore input) = Inl err)))"
  by (auto simp: client_Execute_def split: sum.splits)

theorem marshal_failure_sends_nothing_witness:
  "client_Execute sample_json (loopback_client sample_json sample_mux ''plugins.io/my-action'')
      \<lparr>Item = DArray [DNull], ItemFromBackup = pod_old, Restore = restore_r1\<rparr> =
      ((None, Some (SerializationError ''json: unsupported value'')), [])
   \<and> client_Execute sample_json (loopback_client sample_json sample_mux ''plugins.io/my-action'')
      \<lparr>Item = pod, ItemFromBackup = DArray [DNull], Restore = restore_r1\<rparr> =
      ((None, Some (SerializationError ''json: unsupported value'')), [])
   \<and> client_Execute sample_json (loopback_client sample_json sample_mux ''plugins.io/my-action'')
      \<lparr>Item = pod, ItemFromBackup = pod_old, Restore = DArray [DNull]\<rparr> =
      ((None, Some (SerializationError ''json: unsupported value'')), [])"
  using marshal_failure_sends_nothing [of sample_json
        "\<lparr>Item = DArray [DNull], ItemFromBackup = pod_old, Restore = restore_r1\<rparr>"
        "SerializationError ''json: unsupported value''"
        "loopback_client sample_json sample_mux ''plugins.io/my-action''"]
    marshal_failure_sends_nothing [of sample_json
        "\<lparr>Item = pod, ItemFromBackup = DArray [DNull], Restore = restore_r1\<rparr>"
        "SerializationError ''json: unsupported value''"
        "loopback_client sample_json sample_mux ''plugins.io/my-action''" pod_json]
    marshal_failure_sends_nothing [of sample_json
        "\<lparr>Item = pod, ItemFromBackup = pod_old, Restore = DArray [DNull]\<rparr>"
        "SerializationError ''json: unsupported value''"
        "loopback_client sample_json sample_mux ''plugins.io/my-action''" pod_json pod_old_json]
  by (simp add: sample_json_def sample_encode_simps sample_encode_def
        pod_def pod_old_def pod_restored_def restore_r1_def)

text \<open>
  C6. In the dispatcher's \<open>Execute\<close>, once the plugin name has resolved to an
  implementation: if the item, or the item from backup, or the restore descriptor of the
  request does not decode, the handler returns a nil response and the serializer's
  error (the first one met, in that order), and the implementation is not invoked.
  Whether or not the name resolves, a request with a field that does not decode gets a
  nil response and an error, and nothing is invoked.
\<close>

theorem unmarshal_failure_invokes_nothing:
  "(getImpl mux (req_Plugin req) = Inr impl
      \<and> Unmarshal_unstructured js (req_Item req) = Inl e \<longrightarrow>
      server_Execute js mux req = (Return (None, Some e), []))
   \<and> (getImpl mux (req_Plugin req) = Inr impl
      \<and> Unmarshal_unstructured js (req_Item req) = Inr item
      \<and> Unmarshal_unstructured js (req_ItemFromBackup req) = Inl e \<longrightarrow>
      server_Execute js mux req = (Return (None, Some e), []))
   \<and> (getImpl mux (req_Plugin req) = Inr impl
      \<and> Unmarshal_unstructured js (req_Item req) = Inr item
      \<and> Unmarshal_unstructured js (req_ItemFromBackup req) = Inr itemFromBackup
      \<and> Unmarshal_restore js (req_Restore req) = Inl e \<longrightarrow>
      server_Execute js mux req = (Return (None, Some e), []))
   \<and> (isl (Unmarshal_unstructured js (req_Item req))
       \<or> isl (Unmarshal_unstructured js (req_ItemFromBackup req))
       \<or> isl (Unmarshal_restore js (req_Restore req)) \<longrightarrow>
      (\<exists>err. server_Execute js mux req = (Return (None, Some err), [])))"
  by (auto simp: server_Execute_def server_Execute_body_def deferred_recover_Return
        split: sum.splits)

theorem unmarshal_failure_invokes_nothing_witness:
  "server_Execute sample_json sample_mux
      \<lparr>req_Plugin = ''plugins.io/my-action'', req_Item = ''{'',
       req_ItemFromBackup = pod_old_json, req_Restore = restore_r1_json\<rparr> =
      (Return (None, Some (SerializationError ''invalid character'')), [])
   \<and> server_Execute sample_json sample_mux
      \<lparr>req_Plugin = ''plugins.io/my-action'', req_Item = pod_json,
       req_ItemFromBackup = ''{'', req_Restore = restore_r1_json\<rparr> =
      (Return (None, Some (SerializationError ''invalid character'')), [])
   \<and> server_Execute sample_json sample_mux
      \<lparr>req_Plugin = ''plugins.io/my-action'', req_Item = pod_json,
       req_ItemFromBackup = pod_old_json, req_Restore = ''{''\<rparr> =
      (Return (None, Some (SerializationError ''invalid character'')), [])"
  using unmarshal_failure_invokes_nothing [of sample_mux
        "\<lparr>req_Plugin = ''plugins.io/my-action'', req_Item = ''{'',
          req_ItemFromBackup = pod_old_json, req_Restore = restore_r1_json\<rparr>"
        my_action sample_json "SerializationError ''invalid character''"]
    unmarshal_failure_invokes_nothing [of sample_mux
        "\<lparr>req_Plugin = ''plugins.io/my-action'', req_Item = pod_json,
          req_ItemFromBackup = ''{'', req_Restore = restore_r1_json\<rparr>"
        my_action sample_json "SerializationError ''invalid character''" pod]
    unmarshal_failure_invokes_nothing [of sample_mux
        "\<lparr>req_Plugin = ''plugins.io/my-action'', req_Item = pod_json,
          req_ItemFromBackup = pod_old_json, req_Restore = ''{''\<rparr>"
        my_action sample_json "SerializationError ''invalid character''" pod pod_old]
  by (simp add: getImpl_sample_mux sample_json_def sample_decode_simps sample_decode_def
        pod_json_def pod_old_json_def pod_restored_json_def restore_r1_json_def)

subsection \<open>Selectors\<close>

text \<open>
  C7. The five selector fields pass through both halves unchanged. When the channel
  answers the stub's \<open>AppliesTo\<close> with a response, the returned \<open>ResourceSelector\<close>
  has the response's five fields, each in its own place, and the error is nil. When the
  resolved implementation returns a selector and no error, the dispatcher's response
  has the selector's five fields, each in its own place. Over a channel that brings
  back the dispatcher's response, the stub returns the very selector the implementation
  returned.
\<close>

theorem selector_fields_mapped:
  "(grpcClient_AppliesTo c \<lparr>areq_Plugin = plugin c\<rparr> = Inr res \<longrightarrow>
      fst (client_AppliesTo c) =
        (\<lparr>IncludedNamespaces = resp_IncludedNamespaces res,
          ExcludedNamespaces = resp_ExcludedNamespaces res,
          IncludedResources = resp_IncludedResources res,
          ExcludedResources = resp_ExcludedResources res,
          LabelSelector = resp_Selector res\<rparr>, None))
   \<and> (getImpl mux (areq_Plugin areq) = Inr impl
       \<and> impl_AppliesTo impl = Return (appliesTo, None) \<longrightarrow>
      fst (server_AppliesTo mux areq) =
        Return (Some \<lparr>resp_IncludedNamespaces = IncludedNamespaces appliesTo,
                      resp_ExcludedNamespaces = ExcludedNamespaces appliesTo,
                      resp_IncludedResources = IncludedResources appliesTo,
                      resp_ExcludedResources = ExcludedResources appliesTo,
                      resp_Selector = LabelSelector appliesTo\<rparr>, None))
   \<and> (getImpl mux (plugin c) = Inr impl
       \<and> impl_AppliesTo impl = Return (appliesTo, None)
       \<and> (\<forall>resp. fst (server_AppliesTo mux \<lparr>areq_Plugin = plugin c\<rparr>) = Return (Some resp, None)
              \<longrightarrow> grpcClient_AppliesTo c \<lparr>areq_Plugin = plugin c\<rparr> = Inr resp) \<longrightarrow>
      fst (client_AppliesTo c) = (appliesTo, None))"
  by (auto simp: client_AppliesTo_def server_AppliesTo_def server_AppliesTo_body_def
        deferred_recover_Return)

theorem selector_fields_mapped_witness:
  "fst (client_AppliesTo (canned_client ''plugins.io/my-action'' ns1_response plain_response)) =
     (\<lparr>IncludedNamespaces = [''ns1''], ExcludedNamespaces = [], IncludedResources = [],
       ExcludedResources = [''pods''], LabelSelector = ''app=foo''\<rparr>, None)
   \<and> fst (server_AppliesTo sample_mux \<lparr>areq_Plugin = ''plugins.io/my-action''\<rparr>) =
     Return (Some \<lparr>resp_IncludedNamespaces = [''ns1''], resp_ExcludedNamespaces = [],
                   resp_IncludedResources = [], resp_ExcludedResources = [''pods''],
                   resp_Selector = ''app=foo''\<rparr>, None)
   \<and> fst (client_AppliesTo (loopback_client sample_json sample_mux ''plugins.io/my-action'')) =
     (\<lparr>IncludedNamespaces = [''ns1''], ExcludedNamespaces = [], IncludedResources = [],
       ExcludedResources = [''pods''], LabelSelector = ''app=foo''\<rparr>, None)"
  using selector_fields_mapped [of
        "canned_client ''plugins.io/my-action'' ns1_response plain_response" ns1_response
        sample_mux "\<lparr>areq_Plugin = ''plugins.io/my-action''\<rparr>" my_action ns1_selector]
    selector_fields_mapped [of
        "loopback_client sample_json sample_mux ''plugins.io/my-action''" _
        sample_mux _ my_action ns1_selector]
  by (simp add: canned_client_def ns1_response_def getImpl_sample_mux my_action_def
        ns1_selector_def loopback_client_def)

text \<open>
  C8. When the channel fails the stub's \<open>AppliesTo\<close> call, the stub returns that very
  error together with the zero-valued \<open>ResourceSelector\<close>, after the one RPC it sent.
  Every call of the stub's \<open>AppliesTo\<close> ends in one of two ways: the selector with all
  five fields taken from the response and a nil error, or the zero-valued selector and
  the channel's error.
\<close>

theorem transport_failure_zero_selector:
  "(grpcClient_AppliesTo c \<lparr>areq_Plugin = plugin c\<rparr> = Inl err \<longrightarrow>
      client_AppliesTo c =
        ((zero_ResourceSelector, Some err), [RpcAppliesTo \<lparr>areq_Plugin = plugin c\<rparr>]))
   \<and> ((\<exists>res. grpcClient_AppliesTo c \<lparr>areq_Plugin = plugin c\<rparr> = Inr res
          \<and> fst (client_AppliesTo c) =
              (\<lparr>IncludedNamespaces = resp_IncludedNamespaces res,
                ExcludedNamespaces = resp_ExcludedNamespaces res,
                IncludedResources = resp_IncludedResources res,
                ExcludedResources = resp_ExcludedResources res,
                LabelSelector = resp_Selector res\<rparr>, None))
      \<or> (\<exists>e. grpcClient_AppliesTo c \<lparr>areq_Plugin = plugin c\<rparr> = Inl e
          \<and> fst (client_AppliesTo c) = (zero_ResourceSelector, Some e)))"
  by (cases "grpcClient_AppliesTo c \<lparr>areq_Plugin = plugin c\<rparr>")
     (simp_all add: client_AppliesTo_def)

theorem transport_failure_zero_selector_witness:
  "client_AppliesTo (unreachable_client ''plugins.io/my-action'') =
     ((\<lparr>IncludedNamespaces = [], ExcludedNamespaces = [], IncludedResources = [],
        ExcludedResources = [], LabelSelector = []\<rparr>,
       Some (TransportError ''connection refused'')),
      [RpcAppliesTo \<lparr>areq_Plugin = ''plugins.io/my-action''\<rparr>])"
  using transport_failure_zero_selector [of "unreachable_client ''plugins.io/my-action''"
        "TransportError ''connection refused''"]
  by (simp add: unreachable_client_def zero_ResourceSelector_def)

subsection \<open>Objects of another type, and results that do not encode\<close>

text \<open>
  C9. When the registry lookup of the plugin name resolves to an object that does not
  implement \<open>velero.RestoreItemAction\<close>, \<open>getImpl\<close> fails with an error whose message
  is the object's dynamic type followed by " is not a restore item action"; the
  dispatcher's \<open>AppliesTo\<close> and \<open>Execute\<close> return a nil response and that error, and
  invoke nothing.
\<close>

theorem wrong_type_rejected:
  "(getHandler mux name = Inr (OtherHandler ty) \<longrightarrow>
      getImpl mux name = Inl (Errorf_not_a_restore_item_action ty)
      \<and> Error (Errorf_not_a_restore_item_action ty) = ty @ '' is not a restore item action'')
   \<and> (getHandler mux (areq_Plugin areq) = Inr (OtherHandler ty) \<longrightarrow>
      server_AppliesTo mux areq =
        (Return (None, Some (Errorf_not_a_restore_item_action ty)), []))
   \<and> (getHandler mux (req_Plugin req) = Inr (OtherHandler ty) \<longrightarrow>
      server_Execute js mux req =
        (Return (None, Some (Errorf_not_a_restore_item_action ty)), []))"
  by (simp add: server_AppliesTo_def server_AppliesTo_body_def server_Execute_def
        server_Execute_body_def getImpl_def deferred_recover_Return)

theorem wrong_type_rejected_witness:
  "getImpl sample_mux ''plugins.io/backup-action'' =
      Inl (Errorf_not_a_restore_item_action ''*main.backupAction'')
   \<and> Error (Errorf_not_a_restore_item_action ''*main.backupAction'') =
      ''*main.backupAction is not a restore item action''
   \<and> server_AppliesTo sample_mux \<lparr>areq_Plugin = ''plugins.io/backup-action''\<rparr> =
      (Return (None, Some (Errorf_not_a_restore_item_action ''*main.backupAction'')), [])
   \<and> server_Execute sample_json sample_mux
        \<lparr>req_Plugin = ''plugins.io/backup-action'', req_Item = pod_json,
         req_ItemFromBackup = pod_old_json, req_Restore = restore_r1_json\<rparr> =
      (Return (None, Some (Errorf_not_a_restore_item_action ''*main.backupAction'')), [])"
  using wrong_type_rejected [of sample_mux "''plugins.io/backup-action''" "''*main.backupAction''"
        "\<lparr>areq_Plugin = ''plugins.io/backup-action''\<rparr>"
        "\<lparr>req_Plugin = ''plugins.io/backup-action'', req_Item = pod_json,
         req_ItemFromBackup = pod_old_json, req_Restore = restore_r1_json\<rparr>" sample_json]
  by (simp add: sample_mux_def getHandler_def)

text \<open>
  C10. In the dispatcher's \<open>Execute\<close>, when the name resolves, the three fields decode
  and the implementation returns an output and no error, but the serializer cannot
  encode the output's updated item: the handler returns a nil response and the
  serializer's error, although the implementation was invoked, once, with the decoded
  input.
\<close>

theorem result_marshal_failure:
  "getImpl mux (req_Plugin req) = Inr impl
     \<and> Unmarshal_unstructured js (req_Item req) = Inr item
     \<and> Unmarshal_unstructured js (req_ItemFromBackup req) = Inr itemFromBackup
     \<and> Unmarshal_restore js (req_Restore req) = Inr restoreObj
     \<and> impl_Execute impl \<lparr>Item = item, ItemFromBackup = itemFromBackup, Restore = restoreObj\<rparr> =
          Return (Some out, None)
     \<and> Marshal_unstructured js (UpdatedItem out) = Inl e \<longrightarrow>
   server_Execute js mux req =
     (Return (None, Some e),
      [InvokedExecute (req_Plugin req)
         \<lparr>Item = item, ItemFromBackup = itemFromBackup, Restore = restoreObj\<rparr>])"
  by (simp add: server_Execute_def server_Execute_body_def deferred_recover_Return)

theorem result_marshal_failure_witness:
  "server_Execute sample_json sample_mux
      \<lparr>req_Plugin = ''plugins.io/unencodable'', req_Item = pod_json,
       req_ItemFromBackup = pod_old_json, req_Restore = restore_r1_json\<rparr> =
     (Return (None, Some (SerializationError ''json: unsupported value'')),
      [InvokedExecute ''plugins.io/unencodable''
         \<lparr>Item = pod, ItemFromBackup = pod_old, Restore = restore_r1\<rparr>])"
  using result_marshal_failure [of sample_mux
      "\<lparr>req_Plugin = ''plugins.io/unencodable'', req_Item = pod_json,
        req_ItemFromBackup = pod_old_json, req_Restore = restore_r1_json\<rparr>"
      unencodable_action sample_json pod pod_old restore_r1
      "\<lparr>UpdatedItem = DArray [DNull], Warning = None\<rparr>"
      "SerializationError ''json: unsupported value''"]
  by (simp add: getImpl_sample_mux sample_json_def sample_decode_simps unencodable_action_def
        sample_encode_def pod_def pod_old_def pod_restored_def restore_r1_def)

end
